theory Spec2Isabelle
  imports Complex_Main "HOL-Library.AList"
begin

section \<open>Python values and errors\<close>

text \<open>
  The module \<^verbatim>\<open>geemap/cartoee.py\<close> is dynamically typed. Numbers are modelled as
  exact rationals: a Python \<^verbatim>\<open>int\<close> is modelled exactly, a Python \<^verbatim>\<open>float\<close> by the
  rational it denotes, so the rounding of IEEE doubles is outside the model. Every
  \<^verbatim>\<open>raise\<close> of the source, and every error the interpreter raises for the
  expressions of the source (\<^verbatim>\<open>IndexError\<close>, \<^verbatim>\<open>ZeroDivisionError\<close>, ...), is a value
  of type \<open>error\<close>; a function that can raise returns \<open>error + 'a\<close>.
\<close>

datatype error =
    ValueError string
  | KeyError string
  | IndexError
  | ZeroDivisionError
  | TypeError string
  | UnboundLocalError string
  | AttributeError string
  | HTTPError string
  | ExternalError string

definition bindE :: "error + 'a \<Rightarrow> ('a \<Rightarrow> error + 'b) \<Rightarrow> error + 'b" where
  "bindE m f = (case m of Inl e \<Rightarrow> Inl e | Inr v \<Rightarrow> f v)"

text \<open>
  The texts of the messages are those of the source, without the quotation marks inside
  them.
\<close>

text \<open>\<^verbatim>\<open>seq[i]\<close> for a constant index \<open>i \<ge> 0\<close> on a list or tuple.\<close>

definition index :: "'a list \<Rightarrow> nat \<Rightarrow> error + 'a" where
  "index xs i = (if i < length xs then Inr (xs ! i) else Inl IndexError)"


section \<open>Bounding-box helpers\<close>




text \<open>
  \<open>multiple_of x i\<close>: the number \<open>x\<close> is an integer multiple of \<open>i\<close>. This is the
  notion the statements about \<^verbatim>\<open>_buffer_box\<close> use; the code itself tests
  \<^verbatim>\<open>x % i != 0\<close>.
\<close>

definition multiple_of :: "rat \<Rightarrow> rat \<Rightarrow> bool" where
  "multiple_of x i = (\<exists>k::int. x = of_int k * i)"

text \<open>\<^verbatim>\<open>bbox_to_extent(bbox)\<close>, lines 399-408.\<close>

definition bbox_to_extent :: "'a list \<Rightarrow> error + 'a list" where
  "bbox_to_extent bbox =
     bindE (index bbox 0) (\<lambda>b0.
     bindE (index bbox 2) (\<lambda>b2.
     bindE (index bbox 1) (\<lambda>b1.
     bindE (index bbox 3) (\<lambda>b3.
       Inr [b0, b2, b1, b3]))))"

section \<open>Gridline and tick layout\<close>


definition linspace :: "rat \<Rightarrow> rat \<Rightarrow> int \<Rightarrow> error + rat list" where
  "linspace start stop num =
     (if num < 0 then Inl (ValueError ''Number of samples must be non-negative'')
      else if num = 1 then Inr [start]
      else Inr (map (\<lambda>k. start + of_nat k * ((stop - start) / of_int (num - 1))) [0..<nat num]))"









section \<open>Dynamic values, the store and the effects\<close>

text \<open>
  The arguments of \<^verbatim>\<open>add_layer\<close> and \<^verbatim>\<open>add_colorbar\<close> are dynamically typed; the
  source inspects their types with \<^verbatim>\<open>type(x)\<close>. A dictionary is an object in the store,
  referred to by its address, so that two names can denote one dictionary.
\<close>

type_synonym addr = nat

datatype pyval =
    VNone
  | VBool bool
  | VInt int
  | VFloat rat
  | VStr string
  | VList "pyval list"
  | VTuple "pyval list"
  | VDict addr
  | VImage nat
  | VGeoAxes nat
  | VGeoAxesSubplot nat
  | VObject string nat

datatype pytype =
    TNoneType | TBool | TInt | TFloat | TStr | TList | TTuple | TDict
  | TImage | TGeoAxes | TGeoAxesSubplot | TClass string

text \<open>
  \<^verbatim>\<open>type(v)\<close>. \<open>VImage\<close> is an instance of \<^verbatim>\<open>ee.image.Image\<close>, \<open>VGeoAxes\<close> and
  \<open>VGeoAxesSubplot\<close> are the two cartopy axes classes, \<open>VObject c\<close> is an instance of
  any other class \<open>c\<close>.
\<close>

fun type_of :: "pyval \<Rightarrow> pytype" where
  "type_of VNone = TNoneType"
| "type_of (VBool b) = TBool"
| "type_of (VInt i) = TInt"
| "type_of (VFloat r) = TFloat"
| "type_of (VStr s) = TStr"
| "type_of (VList vs) = TList"
| "type_of (VTuple vs) = TTuple"
| "type_of (VDict a) = TDict"
| "type_of (VImage i) = TImage"
| "type_of (VGeoAxes i) = TGeoAxes"
| "type_of (VGeoAxesSubplot i) = TGeoAxesSubplot"
| "type_of (VObject c i) = TClass c"

text \<open>
  The truth value of \<^verbatim>\<open>if v:\<close> for the values the source tests this way
  (\<^verbatim>\<open>dims\<close>, \<^verbatim>\<open>loc\<close>); the truth value of a dictionary is \<open>dict_truthy\<close> below.
\<close>

fun truthy :: "pyval \<Rightarrow> bool" where
  "truthy VNone = False"
| "truthy (VBool b) = b"
| "truthy (VInt i) = (i \<noteq> 0)"
| "truthy (VFloat r) = (r \<noteq> 0)"
| "truthy (VStr s) = (s \<noteq> [])"
| "truthy (VList vs) = (vs \<noteq> [])"
| "truthy (VTuple vs) = (vs \<noteq> [])"
| "truthy v = True"

text \<open>
  A dictionary with string keys, in insertion order. \<^verbatim>\<open>d[k] = v\<close> replaces the value of
  an existing key in place and appends a new key; \<^verbatim>\<open>{**a, **b}\<close> is a new dictionary:
  the entries of \<open>a\<close>, then those of \<open>b\<close> stored one by one.
\<close>

type_synonym pydict = "(string \<times> pyval) list"

definition dict_keys :: "pydict \<Rightarrow> string list" where
  "dict_keys d = map fst d"

definition dict_set :: "string \<Rightarrow> pyval \<Rightarrow> pydict \<Rightarrow> pydict" where
  "dict_set k v d = AList.update k v d"

definition dict_merge :: "pydict \<Rightarrow> pydict \<Rightarrow> pydict" where
  "dict_merge a b = fold (\<lambda>(k, v). dict_set k v) b a"

definition dict_get :: "pydict \<Rightarrow> string \<Rightarrow> error + pyval" where
  "dict_get d k = (case map_of d k of None \<Rightarrow> Inl (KeyError k) | Some v \<Rightarrow> Inr v)"

definition dict_truthy :: "pydict \<Rightarrow> bool" where
  "dict_truthy d = (d \<noteq> [])"

text \<open>\<^verbatim>\<open>sep.join(xs)\<close> and \<^verbatim>\<open>s.split(c)\<close> for a one-character separator.\<close>

fun join :: "string \<Rightarrow> string list \<Rightarrow> string" where
  "join sep [] = []"
| "join sep [x] = x"
| "join sep (x # y # ys) = x @ sep @ join sep (y # ys)"

fun split :: "char \<Rightarrow> string \<Rightarrow> string list" where
  "split c [] = [[]]"
| "split c (x # xs) =
     (if x = c then [] # split c xs
      else (case split c xs of w # ws \<Rightarrow> (x # w) # ws | [] \<Rightarrow> [[x]]))"

text \<open>
  What the module does to the world outside: the remote calls to Earth Engine, the HTTP
  request for the thumbnail, and the calls that draw on the axes or the figure. Each is
  recorded, in order, when it is invoked.
\<close>

type_synonym image = "nat list list list"

datatype colormap =
    NamedColormap string
  | ListedColormap "string list"
  | LinearSegmentedColormap string "string list" nat

datatype norm = Normalize pyval pyval | BoundaryNorm "rat list" nat

datatype cmap_value = CmapNone | CmapName string | CmapObject colormap

datatype event =
    RectangleGetInfo "rat list"
  | BoundsGetInfo pyval
  | GetThumbUrl pyval pydict
  | RequestsGet string
  | Imshow pyval image "rat list"
  | AddAxes pyval "rat list"
  | SubplotsAdjust string rat
  | Warn string
  | ColorbarBase pyval norm pyval cmap_value pydict
  | SetLabel pyval

record pystate =
  heap :: "(addr \<times> pydict) list"
  next_addr :: addr
  trace :: "event list"

text \<open>
  A computation takes the state and returns a result or the raised error, and the state
  at that point: what was done before a \<^verbatim>\<open>raise\<close> stays done.
\<close>

type_synonym 'a py = "pystate \<Rightarrow> (error + 'a) \<times> pystate"

definition returnS :: "'a \<Rightarrow> 'a py" where
  "returnS v = (\<lambda>s. (Inr v, s))"

definition raiseS :: "error \<Rightarrow> 'a py" where
  "raiseS e = (\<lambda>s. (Inl e, s))"

definition bindS :: "'a py \<Rightarrow> ('a \<Rightarrow> 'b py) \<Rightarrow> 'b py" where
  "bindS m f = (\<lambda>s. case m s of (Inl e, s') \<Rightarrow> (Inl e, s') | (Inr v, s') \<Rightarrow> f v s')"

definition liftE :: "error + 'a \<Rightarrow> 'a py" where
  "liftE r = (\<lambda>s. (r, s))"

text \<open>An outside call: it is recorded, and returns or raises as the outside decides.\<close>

definition call :: "event \<Rightarrow> error + 'a \<Rightarrow> 'a py" where
  "call ev r = (\<lambda>s. (r, s\<lparr>trace := trace s @ [ev]\<rparr>))"

text \<open>A dictionary display \<^verbatim>\<open>{...}\<close> creates a new object at a fresh address.\<close>

definition alloc :: "pydict \<Rightarrow> addr py" where
  "alloc d = (\<lambda>s. (Inr (next_addr s),
     s\<lparr>heap := heap s @ [(next_addr s, d)], next_addr := Suc (next_addr s)\<rparr>))"

definition deref :: "pystate \<Rightarrow> addr \<Rightarrow> pydict" where
  "deref s a = (case map_of (heap s) a of Some d \<Rightarrow> d | None \<Rightarrow> [])"

definition read_dict :: "addr \<Rightarrow> pydict py" where
  "read_dict a = (\<lambda>s. (Inr (deref s a), s))"

text \<open>\<^verbatim>\<open>d[k] = v\<close> on the dictionary at address \<open>a\<close>.\<close>

definition store_item :: "addr \<Rightarrow> string \<Rightarrow> pyval \<Rightarrow> unit py" where
  "store_item a k v = (\<lambda>s. (Inr (), s\<lparr>heap := AList.update a (dict_set k v (deref s a)) (heap s)\<rparr>))"

text \<open>
  The libraries and services the module calls are not part of it. What they answer is a
  parameter of the model; each of them may raise.
\<close>

record env =
  rectangle_coordinates :: "rat list \<Rightarrow> error + (rat \<times> rat) list list"
  bounds_coordinates :: "pyval \<Rightarrow> error + (rat \<times> rat) list list"
  thumb_url :: "pyval \<Rightarrow> pydict \<Rightarrow> error + string"
  requests_get :: "string \<Rightarrow> error + (int \<times> string)"
  eval_error :: "string \<Rightarrow> error + string"
  decode_image :: "string \<Rightarrow> error + (nat \<times> image)"
  cm_get_cmap :: "string \<Rightarrow> int \<Rightarrow> error + (rat \<Rightarrow> rat list)"
  rgb2hex :: "rat list \<Rightarrow> string"
  add_axes :: "pyval \<Rightarrow> rat list \<Rightarrow> error + pyval"
  pyplot_get_cmap :: "string \<Rightarrow> error + colormap"
  colorbar_base :: "pyval \<Rightarrow> pydict \<Rightarrow> error + unit"

section \<open>Palette builder and layer renderer\<close>

text \<open>The errors the two functions raise themselves.\<close>

definition img_error :: error where
  "img_error = ValueError ''provided `img_obj` is not of type ee.Image''"

definition dims_error :: error where
  "dims_error = ValueError ''provided dims not of type list, tuple, or int''"

definition axes_error :: error where
  "axes_error = ValueError ''provided axes not of type cartopy.mpl.geoaxes.GeoAxes or cartopy.mpl.geoaxes.GeoAxesSubplot''"

definition conflict_error :: error where
  "conflict_error = KeyError ''cannot provide `palette` in vis_params if `cmap` is specified''"

definition loc_error :: error where
  "loc_error = ValueError ''provided loc not of type str. options are left, top, right, or bottom''"

definition placement_error :: error where
  "placement_error = ValueError ''loc or cax keywords must be specified''"

text \<open>\<^verbatim>\<open>build_palette(cmap, n=256)\<close>, lines 210-225.\<close>

definition build_palette :: "env \<Rightarrow> string \<Rightarrow> int \<Rightarrow> error + string list" where
  "build_palette env cmap n =
     bindE (cm_get_cmap env cmap n) (\<lambda>colormap.
     bindE (linspace 0 1 n) (\<lambda>vals.
       Inr (map (\<lambda>x. rgb2hex env (take 3 (colormap x))) vals)))"

definition coords_value :: "(rat \<times> rat) list list \<Rightarrow> pyval" where
  "coords_value c = VList (map (\<lambda>ring. VList (map (\<lambda>(x, y). VList [VFloat x, VFloat y]) ring)) c)"

text \<open>
  Lines 150-157 of \<^verbatim>\<open>add_layer\<close>: the region of the request and the extent of the
  overlay. Both branches ask Earth Engine (\<^verbatim>\<open>getInfo()\<close>).
\<close>

definition resolve_region ::
  "env \<Rightarrow> pyval \<Rightarrow> rat list option \<Rightarrow> ((rat \<times> rat) list list \<times> rat list) py" where
  "resolve_region env img_obj region =
     (case region of
        Some r \<Rightarrow>
          bindS (call (RectangleGetInfo r) (rectangle_coordinates env r)) (\<lambda>map_region.
          bindS (liftE (index r 0)) (\<lambda>r0.
          bindS (liftE (index r 2)) (\<lambda>r2.
          bindS (liftE (index r 1)) (\<lambda>r1.
          bindS (liftE (index r 3)) (\<lambda>r3.
            returnS (map_region, [r0, r2, r1, r3]))))))
      | None \<Rightarrow>
          bindS (call (BoundsGetInfo img_obj) (bounds_coordinates env img_obj)) (\<lambda>map_region.
          bindS (liftE (index map_region 0)) (\<lambda>ring.
            (case ring of
               [] \<Rightarrow> raiseS (ValueError ''not enough values to unpack (expected 2, got 0)'')
             | p # ps \<Rightarrow>
                 returnS (map_region,
                   [fold min (map fst ps) (fst p), fold max (map fst ps) (fst p),
                    fold min (map snd ps) (snd p), fold max (map snd ps) (snd p)])))))"

text \<open>
  Lines 195-198: an image whose last axis has length 2 (gray and alpha) becomes RGBA, the
  gray channel three times and then the alpha channel.
\<close>

definition expand_gray_alpha :: "nat \<times> image \<Rightarrow> nat \<times> image" where
  "expand_gray_alpha img =
     (case img of (depth, pixels) \<Rightarrow>
        if depth = 2
        then (4, map (map (\<lambda>px. concat (replicate 3 (take 1 px)) @ drop (length px - 1) px)) pixels)
        else (depth, pixels))"

text \<open>
  Lines 174-185: the visualisation parameters. \<open>args\<close> is the address of the request
  dictionary; the result is the address of the dictionary that is sent.
\<close>

definition merge_vis_params :: "env \<Rightarrow> addr \<Rightarrow> string option \<Rightarrow> addr option \<Rightarrow> addr py" where
  "merge_vis_params env args cmap vis_params =
     (case vis_params of
        None \<Rightarrow> returnS args
      | Some vp \<Rightarrow>
          bindS (read_dict vp) (\<lambda>vis.
            if dict_truthy vis then
              bindS
                (case cmap of
                   None \<Rightarrow> returnS ()
                 | Some c \<Rightarrow>
                     if c \<noteq> [] \<and> ''palette'' \<in> set (dict_keys vis) then
                       raiseS conflict_error
                     else if c \<noteq> [] then
                       bindS (liftE (build_palette env c 256)) (\<lambda>palette.
                         store_item args ''palette'' (VStr (join '','' palette)))
                     else returnS ())
                (\<lambda>_.
              bindS (read_dict args) (\<lambda>a.
              bindS (read_dict vp) (\<lambda>v.
                alloc (dict_merge a v))))
            else returnS args))"

text \<open>
  Lines 168-185: the request dictionary \<^verbatim>\<open>args\<close>. The result is the address of the
  dictionary that is sent.
\<close>

definition build_request ::
  "env \<Rightarrow> pyval \<Rightarrow> rat list option \<Rightarrow> (rat \<times> rat) list list \<Rightarrow> string option \<Rightarrow> addr option
    \<Rightarrow> addr py" where
  "build_request env dims region map_region cmap vis_params =
     bindS (alloc [(''format'', VStr ''png'')]) (\<lambda>args.
     bindS (if region \<noteq> None \<and> region \<noteq> Some []
            then store_item args ''region'' (coords_value map_region)
            else returnS ()) (\<lambda>_.
     bindS (if truthy dims
            then store_item args ''dimensions'' dims
            else returnS ()) (\<lambda>_.
       merge_vis_params env args cmap vis_params)))"

text \<open>
  Lines 187-205: the thumbnail is requested, fetched, decoded and drawn on the axes.
\<close>

definition fetch_and_draw :: "env \<Rightarrow> pyval \<Rightarrow> pyval \<Rightarrow> rat list \<Rightarrow> addr \<Rightarrow> unit py" where
  "fetch_and_draw env ax img_obj view_extent args =
     bindS (read_dict args) (\<lambda>request.
     bindS (call (GetThumbUrl img_obj request) (thumb_url env img_obj request)) (\<lambda>url.
     bindS (call (RequestsGet url) (requests_get env url)) (\<lambda>(status_code, content).
     bindS (if status_code \<noteq> 200
            then bindS (liftE (eval_error env content)) (\<lambda>msg. raiseS (HTTPError msg))
            else returnS ()) (\<lambda>_.
     bindS (liftE (decode_image env content)) (\<lambda>image.
       call (Imshow ax (snd (expand_gray_alpha image)) view_extent) (Inr ()))))))"

text \<open>\<^verbatim>\<open>add_layer(ax, img_obj, dims=1000, region=None, cmap=None, vis_params=None)\<close>,
  lines 127-207.\<close>

definition add_layer ::
  "env \<Rightarrow> pyval \<Rightarrow> pyval \<Rightarrow> pyval \<Rightarrow> rat list option \<Rightarrow> string option \<Rightarrow> addr option \<Rightarrow> unit py" where
  "add_layer env ax img_obj dims region cmap vis_params =
     bindS (if type_of img_obj \<noteq> TImage then raiseS img_error else returnS ()) (\<lambda>_.
     bindS (resolve_region env img_obj region) (\<lambda>(map_region, view_extent).
     bindS (if type_of dims \<notin> {TList, TTuple, TInt} then raiseS dims_error else returnS ()) (\<lambda>_.
     bindS (if type_of ax \<notin> {TGeoAxes, TGeoAxesSubplot} then raiseS axes_error else returnS ()) (\<lambda>_.
     bindS (build_request env dims region map_region cmap vis_params) (\<lambda>args.
       fetch_and_draw env ax img_obj view_extent args)))))"

section \<open>Colorbar composer\<close>

text \<open>The table \<^verbatim>\<open>posOpts\<close> of lines 257-262.\<close>

definition posOpts :: "(string \<times> rat list) list" where
  "posOpts =
     [(''left'', [1/100, 1/4, 1/50, 1/2]),
      (''right'', [22/25, 1/4, 1/50, 1/2]),
      (''bottom'', [1/4, 3/20, 1/2, 1/50]),
      (''top'', [1/4, 22/25, 1/2, 1/50])]"

text \<open>
  Lines 255-284: where the colorbar is drawn. The result is the drawing area \<^verbatim>\<open>cax\<close>
  and the keyword arguments that remain for the colorbar constructor.
\<close>

definition placement :: "env \<Rightarrow> pyval \<Rightarrow> pyval \<Rightarrow> pydict \<Rightarrow> (pyval \<times> pydict) py" where
  "placement env ax loc kwargs =
     (if truthy loc then
        (case loc of
           VStr l \<Rightarrow>
             if l \<in> set [''left'', ''right'', ''bottom'', ''top''] then
               bindS (liftE (case map_of posOpts l of None \<Rightarrow> Inl (KeyError l) | Some r \<Rightarrow> Inr r)) (\<lambda>rect.
               bindS (call (AddAxes ax rect) (add_axes env ax rect)) (\<lambda>cax.
               bindS (if l = ''left'' then call (SubplotsAdjust ''left'' (9/50)) (Inr ())
                      else if l = ''right'' then call (SubplotsAdjust ''right'' (17/20)) (Inr ())
                      else returnS ()) (\<lambda>_.
                 returnS (cax, kwargs))))
             else raiseS loc_error
         | _ \<Rightarrow> raiseS loc_error)
      else if ''cax'' \<in> set (dict_keys kwargs) then
        bindS (liftE (dict_get kwargs ''cax'')) (\<lambda>cax.
          returnS (cax, filter (\<lambda>(key, v). key \<noteq> ''cax'') kwargs))
      else raiseS placement_error)"

text \<open>Lines 288-309: \<^verbatim>\<open>vmin\<close>, \<^verbatim>\<open>vmax\<close> and \<^verbatim>\<open>alpha\<close>.\<close>

definition resolve_vmin :: "pydict \<Rightarrow> pyval py" where
  "resolve_vmin vis =
     (if ''min'' \<in> set (dict_keys vis) then
        bindS (liftE (dict_get vis ''min'')) (\<lambda>vmin.
          if type_of vmin \<notin> {TInt, TFloat}
          then raiseS (ValueError ''provided min value not of scalar type'')
          else returnS vmin)
      else returnS (VInt 0))"

definition resolve_vmax :: "pydict \<Rightarrow> pyval py" where
  "resolve_vmax vis =
     (if ''max'' \<in> set (dict_keys vis) then
        bindS (liftE (dict_get vis ''max'')) (\<lambda>vmax.
          if type_of vmax \<notin> {TInt, TFloat}
          then raiseS (ValueError ''provided max value not of scalar type'')
          else returnS vmax)
      else returnS (VInt 1))"

definition resolve_alpha :: "pydict \<Rightarrow> pydict \<Rightarrow> pyval py" where
  "resolve_alpha vis kwargs =
     (if ''opacity'' \<in> set (dict_keys vis) then
        bindS (liftE (dict_get vis ''opacity'')) (\<lambda>alpha.
          if type_of alpha \<notin> {TInt, TFloat}
          then raiseS (ValueError ''provided opacity value of not type scalar'')
          else returnS alpha)
      else if ''alpha'' \<in> set (dict_keys kwargs) then liftE (dict_get kwargs ''alpha'')
      else returnS (VInt 1))"

text \<open>The number a scalar denotes, and \<^verbatim>\<open>i if i[0] == "#" else "#" + i\<close>.\<close>

fun number_of :: "pyval \<Rightarrow> rat" where
  "number_of (VInt i) = of_int i"
| "number_of (VFloat r) = r"
| "number_of v = 0"

fun with_hash :: "string \<Rightarrow> error + string" where
  "with_hash [] = Inl IndexError"
| "with_hash (c # cs) = Inr (if c = CHR ''#'' then c # cs else CHR ''#'' # c # cs)"

fun mapE :: "('a \<Rightarrow> error + 'b) \<Rightarrow> 'a list \<Rightarrow> error + 'b list" where
  "mapE f [] = Inr []"
| "mapE f (x # xs) = bindE (f x) (\<lambda>y. bindE (mapE f xs) (\<lambda>ys. Inr (y # ys)))"

text \<open>\<^verbatim>\<open>mpl.pyplot.get_cmap(cmap)\<close> for a name or a colormap object.\<close>

definition get_cmap :: "env \<Rightarrow> cmap_value \<Rightarrow> error + cmap_value" where
  "get_cmap env cmap =
     (case cmap of
        CmapName n \<Rightarrow> bindE (pyplot_get_cmap env n) (\<lambda>c. Inr (CmapObject c))
      | CmapObject c \<Rightarrow> Inr (CmapObject c)
      | CmapNone \<Rightarrow> bindE (pyplot_get_cmap env ''viridis'') (\<lambda>c. Inr (CmapObject c)))"

definition discrete_warning :: string where
  "discrete_warning = ''discrete keyword used when palette key is supplied with visParams, creating a continuous colorbar...''"

text \<open>Lines 311-353: the colormap and the normalisation.\<close>

definition color_source ::
  "env \<Rightarrow> pydict \<Rightarrow> cmap_value \<Rightarrow> bool \<Rightarrow> pyval \<Rightarrow> pyval \<Rightarrow> (cmap_value \<times> norm) py" where
  "color_source env vis cmap discrete vmin vmax =
     bindS (if cmap \<noteq> CmapNone then
              bindS (if discrete then call (Warn discrete_warning) (Inr ()) else returnS ()) (\<lambda>_.
                liftE (get_cmap env cmap))
            else returnS cmap) (\<lambda>cmap.
     if ''palette'' \<in> set (dict_keys vis) then
       bindS (liftE (dict_get vis ''palette'')) (\<lambda>palette.
       bindS (case palette of
                VStr p \<Rightarrow> returnS (split CHR '','' p)
              | _ \<Rightarrow> raiseS (AttributeError ''split'')) (\<lambda>hexcodes.
       bindS (liftE (mapE with_hash hexcodes)) (\<lambda>hexcodes.
         if discrete then
           bindS (liftE (linspace (number_of vmin) (number_of vmax) (int (length hexcodes) + 1))) (\<lambda>vals.
             returnS (CmapObject (ListedColormap hexcodes), BoundaryNorm vals (length hexcodes)))
         else
           returnS (CmapObject (LinearSegmentedColormap ''custom'' hexcodes 256), Normalize vmin vmax))))
     else if cmap \<noteq> CmapNone then
       bindS (if discrete then call (Warn discrete_warning) (Inr ()) else returnS ()) (\<lambda>_.
       bindS (liftE (get_cmap env cmap)) (\<lambda>cmap.
         returnS (cmap, Normalize vmin vmax)))
     else raiseS (ValueError ''cmap keyword or palette key in visParams must be provided''))"

text \<open>
  The call \<^verbatim>\<open>ColorbarBase(cax, norm=norm, alpha=alpha, cmap=cmap, **kwargs)\<close> of line 355.
  The locals \<^verbatim>\<open>norm\<close> (here \<open>nrm\<close>) and \<^verbatim>\<open>alpha\<close> are bound only inside \<^verbatim>\<open>if vis_params:\<close>, so
  they are optional here and reading an unbound one raises; a key of \<^verbatim>\<open>kwargs\<close> that
  repeats one of the three explicit keywords is refused by the interpreter before the
  constructor runs.
\<close>

definition colorbar_call ::
  "env \<Rightarrow> pyval \<Rightarrow> norm option \<Rightarrow> pyval option \<Rightarrow> cmap_value \<Rightarrow> pydict \<Rightarrow> unit py" where
  "colorbar_call env cax nrm alpha cmap kwargs =
     (case nrm of
        None \<Rightarrow> raiseS (UnboundLocalError ''norm'')
      | Some n \<Rightarrow>
         (case alpha of
            None \<Rightarrow> raiseS (UnboundLocalError ''alpha'')
          | Some a \<Rightarrow>
             (case filter (\<lambda>k. k \<in> set [''norm'', ''alpha'', ''cmap'']) (dict_keys kwargs) of
                k # _ \<Rightarrow> raiseS (TypeError (''got multiple values for keyword argument '' @ k))
              | [] \<Rightarrow> call (ColorbarBase cax n a cmap kwargs) (colorbar_base env cax kwargs))))"

text \<open>
  \<^verbatim>\<open>add_colorbar(ax, vis_params, loc=None, cmap="gray", discrete=False, label=None,
  **kwargs)\<close>, lines 228-362. \<open>vis_params\<close> is the address of the caller's dictionary.
\<close>

definition add_colorbar ::
  "env \<Rightarrow> pyval \<Rightarrow> addr \<Rightarrow> pyval \<Rightarrow> string option \<Rightarrow> bool \<Rightarrow> pyval \<Rightarrow> pydict \<Rightarrow> unit py" where
  "add_colorbar env ax vis_params loc cmap discrete label kwargs =
     bindS (if type_of ax \<notin> {TGeoAxes, TGeoAxesSubplot} then raiseS axes_error else returnS ()) (\<lambda>_.
     bindS (placement env ax loc kwargs) (\<lambda>(cax, kwargs).
     bindS (read_dict vis_params) (\<lambda>vis.
     bindS (if dict_truthy vis then
              bindS (resolve_vmin vis) (\<lambda>vmin.
              bindS (resolve_vmax vis) (\<lambda>vmax.
              bindS (resolve_alpha vis kwargs) (\<lambda>alpha.
              bindS (color_source env vis (case cmap of None \<Rightarrow> CmapNone | Some n \<Rightarrow> CmapName n)
                       discrete vmin vmax) (\<lambda>(cmap, nrm).
                returnS (Some nrm, Some alpha, cmap)))))
            else returnS (None, None, (case cmap of None \<Rightarrow> CmapNone | Some n \<Rightarrow> CmapName n)))
       (\<lambda>(nrm, alpha, cmap).
     bindS (colorbar_call env cax nrm alpha cmap kwargs) (\<lambda>_.
       if ''bands'' \<in> set (dict_keys vis) then
         bindS (liftE (dict_get vis ''bands'')) (\<lambda>bands. call (SetLabel bands) (Inr ()))
       else if label \<noteq> VNone then call (SetLabel label) (Inr ())
       else returnS ())))))"

section \<open>Vocabulary of the statements\<close>

text \<open>
  The remote geometry query of \<^verbatim>\<open>add_layer\<close> (one of the two \<^verbatim>\<open>getInfo()\<close> calls of
  lines 151 and 154), and the two calls that fetch the thumbnail.
\<close>

definition geometry_query :: "pyval \<Rightarrow> rat list option \<Rightarrow> event" where
  "geometry_query img_obj region =
     (case region of Some r \<Rightarrow> RectangleGetInfo r | None \<Rightarrow> BoundsGetInfo img_obj)"

fun is_fetch :: "event \<Rightarrow> bool" where
  "is_fetch (GetThumbUrl i d) = True"
| "is_fetch (RequestsGet u) = True"
| "is_fetch ev = False"

text \<open>
  \<open>triple P m Q\<close>: from a state with \<open>P\<close>, the computation \<open>m\<close> ends, by a result or
  by an error, in a state with \<open>Q\<close>. \<open>kept n h s\<close>: the dictionaries at the addresses
  below \<open>n\<close> are those of \<open>h\<close>.
\<close>

definition triple :: "(pystate \<Rightarrow> bool) \<Rightarrow> 'a py \<Rightarrow> (error + 'a \<Rightarrow> pystate \<Rightarrow> bool) \<Rightarrow> bool" where
  "triple P m Q = (\<forall>s. P s \<longrightarrow> Q (fst (m s)) (snd (m s)))"

definition kept :: "addr \<Rightarrow> (addr \<Rightarrow> pydict option) \<Rightarrow> pystate \<Rightarrow> bool" where
  "kept n h s = (n \<le> next_addr s \<and> (\<forall>a<n. map_of (heap s) a = h a))"

text \<open>
  A sample outside world, in which every call succeeds, and a sample store with four
  dictionaries, for evaluating the functions at concrete inputs.
\<close>

definition sample_env :: env where
  "sample_env =
     \<lparr>rectangle_coordinates = (\<lambda>r. Inr [[(0, 0), (1, 0), (1, 1), (0, 1), (0, 0)]]),
      bounds_coordinates = (\<lambda>i. Inr [[(0, 0), (10, 0), (10, 5), (0, 5), (0, 0)]]),
      thumb_url = (\<lambda>i d. Inr ''https://thumb''),
      requests_get = (\<lambda>u. Inr (200, ''png'')),
      eval_error = (\<lambda>c. Inr ''error''),
      decode_image = (\<lambda>c. Inr (2, [[[7, 255]]])),
      cm_get_cmap = (\<lambda>n k. Inr (\<lambda>x. [x, x, x, 1])),
      rgb2hex = (\<lambda>c. ''#000000''),
      add_axes = (\<lambda>ax r. Inr (VObject ''Axes'' 1)),
      pyplot_get_cmap = (\<lambda>n. Inr (NamedColormap n)),
      colorbar_base = (\<lambda>c k. Inr ())\<rparr>"

definition sample_state :: pystate where
  "sample_state =
     \<lparr>heap = [(0, [(''min'', VInt 0), (''max'', VInt 3000)]),
              (1, []),
              (2, [(''bands'', VStr ''B1'')]),
              (3, [(''palette'', VStr ''ff0000,#00ff00''), (''opacity'', VFloat (1/2))])],
      next_addr = 4,
      trace = []\<rparr>"

section \<open>Basic facts\<close>

lemma bindE_simps:
  "bindE (Inr v) f = f v"
  "bindE (Inl e) f = Inl e"
  by (simp_all add: bindE_def)

lemma index_simps:
  "index (x # xs) 0 = Inr x"
  "index (x # xs) (Suc n) = index xs n"
  "index [] n = Inl IndexError"
  by (simp_all add: index_def)

section \<open>Properties of the bounding-box helpers\<close>







lemma multiple_of_mult [simp]: "multiple_of (i * of_int k) i"
  by (auto simp add: multiple_of_def mult.commute)



text \<open>
  Claim C6, first half: \<open>bbox_to_extent\<close> maps every 4-tuple \<open>(w, s, e, n)\<close> to
  \<open>(w, e, s, n)\<close>, with no validation of the values. The second half of the claim,
  that applying it twice does not give back the original order, is false: the function
  swaps the two middle positions, so the second application undoes the first. The
  function is its own inverse on 4-tuples.
\<close>

theorem bbox_to_extent_swap_involution:
  "bbox_to_extent [w, s, e, n] = Inr [w, e, s, n]
   \<and> bindE (bbox_to_extent [w, s, e, n]) bbox_to_extent = Inr [w, s, e, n]"
  by (simp add: bbox_to_extent_def index_simps bindE_simps eval_nat_numeral)

text \<open>
  At the 4-tuple \<open>(1, 2, 3, 4)\<close> the second application returns \<open>(1, 2, 3, 4)\<close>, the
  original order: the claim "applying it twice does not return the original order" does
  not hold.
\<close>

theorem bbox_to_extent_twice_counterexample:
  "\<not> (bindE (bbox_to_extent [1, 2, 3, 4 :: int]) bbox_to_extent \<noteq> Inr [1, 2, 3, 4])"
  by (simp add: bbox_to_extent_def index_simps bindE_simps eval_nat_numeral)






section \<open>Properties of the tick layout\<close>













section \<open>Properties of the layer renderer\<close>

lemmas py_defs = bindS_def returnS_def raiseS_def liftE_def call_def

lemma resolve_region_state:
  "snd (resolve_region env img_obj region s) = s\<lparr>trace := trace s @ [geometry_query img_obj region]\<rparr>"
  by (cases region)
     (simp_all add: resolve_region_def geometry_query_def py_defs split: sum.splits list.splits prod.splits)

lemma add_layer_not_image:
  assumes "type_of img_obj \<noteq> TImage"
  shows "add_layer env ax img_obj dims region cmap vp s =
           (Inl img_error, s)"
  using assms by (simp add: add_layer_def py_defs)

lemma add_layer_bad_dims_or_axes:
  assumes "type_of img_obj = TImage"
    and "type_of dims \<notin> {TList, TTuple, TInt} \<or> type_of ax \<notin> {TGeoAxes, TGeoAxesSubplot}"
  shows "add_layer env ax img_obj dims region cmap vp s =
           ((case fst (resolve_region env img_obj region s) of
               Inl e \<Rightarrow> Inl e
             | Inr x \<Rightarrow> Inl (if type_of dims \<notin> {TList, TTuple, TInt} then dims_error else axes_error)),
            s\<lparr>trace := trace s @ [geometry_query img_obj region]\<rparr>)"
proof -
  obtain r s' where rs: "resolve_region env img_obj region s = (r, s')"
    by (cases "resolve_region env img_obj region s")
  with resolve_region_state [of env img_obj region s]
  have s': "s' = s\<lparr>trace := trace s @ [geometry_query img_obj region]\<rparr>" by simp
  show ?thesis
  proof (cases r)
    case (Inl e)
    with rs s' assms(1) show ?thesis
      by (simp add: add_layer_def py_defs)
  next
    case (Inr x)
    with rs s' assms show ?thesis
      by (cases x) (auto simp add: add_layer_def py_defs)
  qed
qed


subsection \<open>Rules for triples\<close>

lemma tripleI: "(\<And>s. P s \<Longrightarrow> Q (fst (m s)) (snd (m s))) \<Longrightarrow> triple P m Q"
  by (simp add: triple_def)

lemma tripleD: "triple P m Q \<Longrightarrow> P s \<Longrightarrow> Q (fst (m s)) (snd (m s))"
  by (simp add: triple_def)

lemma triple_weaken:
  assumes "triple P m Q" "\<And>s. P' s \<Longrightarrow> P s" "\<And>r s. Q r s \<Longrightarrow> Q' r s"
  shows "triple P' m Q'"
  using assms by (simp add: triple_def)

lemma triple_bind:
  assumes "triple P m (\<lambda>r s. case r of Inl e \<Rightarrow> Q (Inl e) s | Inr v \<Rightarrow> R v s)"
    and "\<And>v. triple (R v) (f v) Q"
  shows "triple P (bindS m f) Q"
proof (rule tripleI)
  fix s assume P: "P s"
  obtain r s' where ms: "m s = (r, s')" by (cases "m s")
  from tripleD [OF assms(1) P]
  have m: "case r of Inl e \<Rightarrow> Q (Inl e) s' | Inr v \<Rightarrow> R v s'" by (simp add: ms split: sum.splits)
  show "Q (fst (bindS m f s)) (snd (bindS m f s))"
  proof (cases r)
    case (Inl e)
    with m show ?thesis by (simp add: bindS_def ms)
  next
    case (Inr v)
    with m have "R v s'" by simp
    from tripleD [OF assms(2) this] show ?thesis by (simp add: bindS_def ms Inr)
  qed
qed

text \<open>Keeping the old dictionaries: the primitive steps.\<close>

lemma kept_trace [simp]: "kept n h (s\<lparr>trace := t\<rparr>) = kept n h s"
  by (simp add: kept_def)

lemma kept_return: "triple (kept n h) (returnS v) (\<lambda>r s. kept n h s \<and> r = Inr v)"
  by (simp add: triple_def returnS_def)

lemma kept_raise: "triple (kept n h) (raiseS e) (\<lambda>r s. kept n h s \<and> r = Inl e)"
  by (simp add: triple_def raiseS_def)

lemma kept_liftE: "triple (kept n h) (liftE x) (\<lambda>r s. kept n h s)"
  by (simp add: triple_def liftE_def)

lemma kept_call: "triple (kept n h) (call ev x) (\<lambda>r s. kept n h s)"
  by (simp add: triple_def call_def)

lemma kept_read_dict: "triple (kept n h) (read_dict a) (\<lambda>r s. kept n h s)"
  by (simp add: triple_def read_dict_def)

lemma kept_alloc: "triple (kept n h) (alloc d) (\<lambda>r s. kept n h s \<and> (\<exists>a. r = Inr a \<and> n \<le> a))"
  by (auto simp add: triple_def alloc_def kept_def map_add_def split: option.splits)

lemma kept_store_item:
  assumes "n \<le> a"
  shows "triple (kept n h) (store_item a k v) (\<lambda>r s. kept n h s)"
  using assms by (auto simp add: triple_def store_item_def kept_def update_conv')


lemma keeps_bind:
  assumes "triple (kept n h) m (\<lambda>r s. kept n h s)"
    and "\<And>v. triple (kept n h) (f v) (\<lambda>r s. kept n h s)"
  shows "triple (kept n h) (bindS m f) (\<lambda>r s. kept n h s)"
  by (rule triple_bind [where R = "\<lambda>v. kept n h"])
     (use assms in \<open>auto simp add: triple_def split: sum.splits\<close>)

lemma keeps_bind_alloc:
  assumes "\<And>a. n \<le> a \<Longrightarrow> triple (kept n h) (f a) (\<lambda>r s. kept n h s)"
  shows "triple (kept n h) (bindS (alloc d) f) (\<lambda>r s. kept n h s)"
proof (rule triple_bind [where R = "\<lambda>a s. kept n h s \<and> n \<le> a"])
  show "triple (kept n h) (alloc d)
     (\<lambda>r s. case r of Inl e \<Rightarrow> kept n h s | Inr a \<Rightarrow> kept n h s \<and> n \<le> a)"
    using kept_alloc [of n h d] by (auto simp add: triple_def)
next
  fix a
  show "triple (\<lambda>s. kept n h s \<and> n \<le> a) (f a) (\<lambda>r s. kept n h s)"
    using assms [of a] by (auto simp add: triple_def)
qed

lemma keeps_if:
  assumes "c \<Longrightarrow> triple P a Q" "\<not> c \<Longrightarrow> triple P b Q"
  shows "triple P (if c then a else b) Q"
  using assms by simp

lemma keeps_prod:
  assumes "\<And>a b. triple P (g a b) Q"
  shows "triple P (case v of (a, b) \<Rightarrow> g a b) Q"
  using assms by (cases v) simp

lemma keeps_option:
  assumes "triple P a Q" "\<And>x. triple P (g x) Q"
  shows "triple P (case v of None \<Rightarrow> a | Some x \<Rightarrow> g x) Q"
  using assms by (cases v) simp_all

lemma keeps_list:
  assumes "triple P a Q" "\<And>x xs. triple P (g x xs) Q"
  shows "triple P (case v of [] \<Rightarrow> a | x # xs \<Rightarrow> g x xs) Q"
  using assms by (cases v) simp_all

lemma keeps_return: "triple (kept n h) (returnS v) (\<lambda>r s. kept n h s)"
  by (simp add: triple_def returnS_def)

lemma keeps_raise: "triple (kept n h) (raiseS e) (\<lambda>r s. kept n h s)"
  by (simp add: triple_def raiseS_def)

lemma keeps_alloc: "triple (kept n h) (alloc d) (\<lambda>r s. kept n h s)"
  using kept_alloc [of n h d] by (auto simp add: triple_def)

lemmas keeps_rules =
  keeps_bind_alloc keeps_bind keeps_if keeps_prod keeps_option keeps_list
  keeps_return keeps_raise kept_liftE kept_call kept_read_dict keeps_alloc

lemma keeps_resolve_region:
  "triple (kept n h) (resolve_region env img_obj region) (\<lambda>r s. kept n h s)"
  by (simp add: triple_def resolve_region_state)

lemma keeps_merge_vis_params:
  assumes "n \<le> args"
  shows "triple (kept n h) (merge_vis_params env args cmap vp) (\<lambda>r s. kept n h s)"
  unfolding merge_vis_params_def
  by (intro keeps_rules kept_store_item assms)

lemma keeps_add_layer:
  "triple (kept n h) (add_layer env ax img_obj dims region cmap vp) (\<lambda>r s. kept n h s)"
  unfolding add_layer_def build_request_def fetch_and_draw_def
  by (intro keeps_rules kept_store_item keeps_resolve_region keeps_merge_vis_params)


lemma bindS_run:
  "bindS m f s = (case fst (m s) of Inl e \<Rightarrow> (Inl e, snd (m s)) | Inr v \<Rightarrow> f v (snd (m s)))"
  by (simp add: bindS_def split: prod.splits sum.splits)

lemma run_simps:
  "fst (returnS v s) = Inr v" "snd (returnS v s) = s"
  "fst (raiseS e s) = Inl e" "snd (raiseS e s) = s"
  "fst (liftE r s) = r" "snd (liftE r s) = s"
  "fst (call ev r s) = r" "snd (call ev r s) = s\<lparr>trace := trace s @ [ev]\<rparr>"
  "fst (read_dict a s) = Inr (deref s a)" "snd (read_dict a s) = s"
  "fst (alloc d s) = Inr (next_addr s)"
  "fst (store_item a k x s) = Inr ()"
  by (simp_all add: returnS_def raiseS_def liftE_def call_def read_dict_def alloc_def store_item_def)

lemma alloc_simps:
  "trace (snd (alloc d s)) = trace s"
  "next_addr (snd (alloc d s)) = Suc (next_addr s)"
  "map_of (heap (snd (alloc d s))) a =
     (if a = next_addr s \<and> map_of (heap s) a = None then Some d else map_of (heap s) a)"
  by (simp_all add: alloc_def map_add_def split: option.splits)

lemma store_item_simps:
  "trace (snd (store_item a k x s)) = trace s"
  "next_addr (snd (store_item a k x s)) = next_addr s"
  "map_of (heap (snd (store_item a k x s))) b =
     (if b = a then Some (dict_set k x (deref s a)) else map_of (heap s) b)"
  by (simp_all add: store_item_def update_conv')

lemma deref_trace [simp]: "deref (s\<lparr>trace := t\<rparr>) a = deref s a"
  by (simp add: deref_def)

lemma deref_alloc: "a < next_addr s \<Longrightarrow> deref (snd (alloc d s)) a = deref s a"
  by (simp add: deref_def alloc_simps)

lemma deref_store_item:
  "deref (snd (store_item a k x s)) b = (if b = a then dict_set k x (deref s a) else deref s b)"
  by (simp add: deref_def store_item_simps)

lemma palette_key_truthy: "''palette'' \<in> set (dict_keys vis) \<Longrightarrow> dict_truthy vis"
  by (auto simp add: dict_truthy_def dict_keys_def)

lemma add_layer_conflict_valid:
  assumes ty: "type_of img_obj = TImage" "type_of dims \<in> {TList, TTuple, TInt}"
      "type_of ax \<in> {TGeoAxes, TGeoAxesSubplot}"
    and rr: "fst (resolve_region env img_obj region s) = Inr x"
    and c: "c \<noteq> []"
    and vp: "vp < next_addr s" "''palette'' \<in> set (dict_keys (deref s vp))"
  shows "fst (add_layer env ax img_obj dims region (Some c) (Some vp) s) = Inl conflict_error
       \<and> trace (snd (add_layer env ax img_obj dims region (Some c) (Some vp) s))
           = trace s @ [geometry_query img_obj region]"
proof -
  obtain mr ve where x: "x = (mr, ve)" by (cases x)
  have rs: "resolve_region env img_obj region s =
      (Inr (mr, ve), s\<lparr>trace := trace s @ [geometry_query img_obj region]\<rparr>)"
    using rr resolve_region_state [of env img_obj region s] x
    by (cases "resolve_region env img_obj region s") simp
  from vp(1) have ne: "vp \<noteq> next_addr s" by simp
  have tr: "dict_truthy (deref s vp)" using vp(2) by (rule palette_key_truthy)
  show ?thesis
    using ty c ne vp tr
    by (simp add: add_layer_def build_request_def merge_vis_params_def bindS_run rs run_simps
        alloc_simps store_item_simps deref_alloc deref_store_item)
qed


lemma is_fetch_geometry_query [simp]: "\<not> is_fetch (geometry_query img_obj region)"
  by (cases region) (simp_all add: geometry_query_def)

lemma add_layer_region_error:
  assumes "type_of img_obj = TImage" "fst (resolve_region env img_obj region s) = Inl e"
  shows "add_layer env ax img_obj dims region cmap vp s =
           (Inl e, s\<lparr>trace := trace s @ [geometry_query img_obj region]\<rparr>)"
  using assms resolve_region_state [of env img_obj region s]
  by (simp add: add_layer_def bindS_run run_simps)

text \<open>
  Claim C1, amended. In \<open>add_layer\<close> the check of the image handle comes first: when
  \<open>img_obj\<close> is not an \<^verbatim>\<open>ee.Image\<close> the call raises with no remote call and no other
  effect. The checks of \<open>dims\<close> and of the axes come after the remote geometry query
  (lines 150-157) and before everything else: when \<open>dims\<close> or the axes has the wrong
  type, the call raises with exactly that one query made and no other effect (no
  thumbnail request, no HTTP request, no drawing, no change of the store); the error is
  the validation error, unless the geometry query itself failed.
\<close>

theorem add_layer_validation_order:
  "(type_of img_obj \<noteq> TImage \<longrightarrow>
      add_layer env ax img_obj dims region cmap vis_params s = (Inl img_error, s))
   \<and> (type_of img_obj = TImage
        \<and> (type_of dims \<notin> {TList, TTuple, TInt} \<or> type_of ax \<notin> {TGeoAxes, TGeoAxesSubplot}) \<longrightarrow>
      add_layer env ax img_obj dims region cmap vis_params s =
        ((case fst (resolve_region env img_obj region s) of
            Inl e \<Rightarrow> Inl e
          | Inr x \<Rightarrow> Inl (if type_of dims \<notin> {TList, TTuple, TInt} then dims_error else axes_error)),
         s\<lparr>trace := trace s @ [geometry_query img_obj region]\<rparr>))"
  using add_layer_not_image [of img_obj env ax dims region cmap vis_params s]
    add_layer_bad_dims_or_axes [of img_obj dims ax env region cmap vis_params s]
  by blast

theorem add_layer_validation_order_witness:
  "type_of (VStr ''image'') \<noteq> TImage
   \<and> add_layer sample_env (VGeoAxes 0) (VStr ''image'') (VInt 1000) None None None sample_state
       = (Inl img_error, sample_state)
   \<and> type_of (VImage 0) = TImage \<and> type_of (VFloat 1000) \<notin> {TList, TTuple, TInt}
   \<and> add_layer sample_env (VGeoAxes 0) (VImage 0) (VFloat 1000) None None None sample_state
       = (Inl dims_error, sample_state\<lparr>trace := [BoundsGetInfo (VImage 0)]\<rparr>)"
proof -
  have r: "fst (resolve_region sample_env (VImage 0) None sample_state)
            = Inr ([[(0, 0), (10, 0), (10, 5), (0, 5), (0, 0)]], [0, 10, 0, 5])"
    by (simp add: resolve_region_def sample_env_def bindS_run run_simps index_simps)
  have t: "trace sample_state = []" by (simp add: sample_state_def)
  from add_layer_validation_order [of "VStr ''image''" sample_env "VGeoAxes 0" "VInt 1000" None None None sample_state]
    add_layer_validation_order [of "VImage 0" sample_env "VGeoAxes 0" "VFloat 1000" None None None sample_state]
  show ?thesis by (simp add: r t geometry_query_def)
qed

text \<open>
  The claim as stated, that a wrong type of \<open>dims\<close> or of the axes raises before any
  remote call, fails: with a string for the axes, or a float for \<open>dims\<close>, the call has
  already asked Earth Engine for the geometry when it raises.
\<close>

theorem add_layer_validation_order_counterexample:
  "add_layer sample_env (VStr ''axes'') (VImage 0) (VInt 1000) None None None sample_state
     = (Inl axes_error, sample_state\<lparr>trace := [BoundsGetInfo (VImage 0)]\<rparr>)
   \<and> add_layer sample_env (VGeoAxes 0) (VImage 0) (VFloat 1000) (Some [0, 0, 1, 1]) None None sample_state
     = (Inl dims_error, sample_state\<lparr>trace := [RectangleGetInfo [0, 0, 1, 1]]\<rparr>)
   \<and> trace sample_state = []"
  by (simp add: add_layer_def resolve_region_def sample_env_def sample_state_def bindS_run run_simps
      index_simps eval_nat_numeral)

text \<open>
  Claim C9. For every call of \<open>add_layer\<close> with a \<open>cmap\<close> (a non-empty name) and a
  \<open>vis_params\<close> dictionary that has the key \<^verbatim>\<open>palette\<close>: the call fails, and it invokes
  neither \<^verbatim>\<open>getThumbUrl\<close> nor \<^verbatim>\<open>requests.get\<close>; when the three type checks pass and the
  geometry query returns, the error is the configuration error of line 177.
\<close>

theorem add_layer_cmap_palette_conflict:
  assumes "c \<noteq> []" "vp < next_addr s" "''palette'' \<in> set (dict_keys (deref s vp))"
  shows "(\<exists>e. fst (add_layer env ax img_obj dims region (Some c) (Some vp) s) = Inl e)
     \<and> filter is_fetch (trace (snd (add_layer env ax img_obj dims region (Some c) (Some vp) s)))
         = filter is_fetch (trace s)
     \<and> (type_of img_obj = TImage \<and> type_of dims \<in> {TList, TTuple, TInt}
          \<and> type_of ax \<in> {TGeoAxes, TGeoAxesSubplot}
          \<and> (\<exists>x. fst (resolve_region env img_obj region s) = Inr x) \<longrightarrow>
        fst (add_layer env ax img_obj dims region (Some c) (Some vp) s) = Inl conflict_error)"
proof -
  let ?run = "add_layer env ax img_obj dims region (Some c) (Some vp) s"
  consider (a) "type_of img_obj \<noteq> TImage"
    | (b) e where "type_of img_obj = TImage" "fst (resolve_region env img_obj region s) = Inl e"
    | (c) x where "type_of img_obj = TImage" "fst (resolve_region env img_obj region s) = Inr x"
        "type_of dims \<notin> {TList, TTuple, TInt} \<or> type_of ax \<notin> {TGeoAxes, TGeoAxesSubplot}"
    | (d) x where "type_of img_obj = TImage" "fst (resolve_region env img_obj region s) = Inr x"
        "type_of dims \<in> {TList, TTuple, TInt}" "type_of ax \<in> {TGeoAxes, TGeoAxesSubplot}"
    by (cases "fst (resolve_region env img_obj region s)") blast+
  then show ?thesis
  proof cases
    case a
    then have "?run = (Inl img_error, s)" by (rule add_layer_not_image)
    with a show ?thesis by simp
  next
    case b
    then have "?run = (Inl e, s\<lparr>trace := trace s @ [geometry_query img_obj region]\<rparr>)"
      by (rule add_layer_region_error)
    with b show ?thesis by simp
  next
    case c
    from add_layer_bad_dims_or_axes [OF c(1,3), of env region "Some c" "Some vp" s] c(2)
    have "?run = (Inl (if type_of dims \<notin> {TList, TTuple, TInt} then dims_error else axes_error),
        s\<lparr>trace := trace s @ [geometry_query img_obj region]\<rparr>)"
      by simp
    with c show ?thesis by auto
  next
    case d
    from add_layer_conflict_valid [OF d(1,3,4,2) assms]
    show ?thesis by simp
  qed
qed

theorem add_layer_cmap_palette_conflict_witness:
  "''viridis'' \<noteq> [] \<and> 3 < next_addr sample_state
   \<and> ''palette'' \<in> set (dict_keys (deref sample_state 3))
   \<and> type_of (VImage 0) = TImage \<and> type_of (VInt 1000) \<in> {TList, TTuple, TInt}
   \<and> type_of (VGeoAxes 0) \<in> {TGeoAxes, TGeoAxesSubplot}
   \<and> fst (resolve_region sample_env (VImage 0) None sample_state)
        = Inr ([[(0, 0), (10, 0), (10, 5), (0, 5), (0, 0)]], [0, 10, 0, 5])
   \<and> fst (add_layer sample_env (VGeoAxes 0) (VImage 0) (VInt 1000) None (Some ''viridis'') (Some 3) sample_state)
        = Inl conflict_error
   \<and> filter is_fetch (trace (snd (add_layer sample_env (VGeoAxes 0) (VImage 0) (VInt 1000) None
        (Some ''viridis'') (Some 3) sample_state))) = []"
proof -
  have r: "fst (resolve_region sample_env (VImage 0) None sample_state)
            = Inr ([[(0, 0), (10, 0), (10, 5), (0, 5), (0, 0)]], [0, 10, 0, 5])"
    by (simp add: resolve_region_def sample_env_def bindS_run run_simps index_simps)
  have h: "''viridis'' \<noteq> []" "3 < next_addr sample_state"
      "''palette'' \<in> set (dict_keys (deref sample_state 3))"
    by (simp_all add: sample_state_def deref_def dict_keys_def)
  have t: "trace sample_state = []" by (simp add: sample_state_def)
  from add_layer_cmap_palette_conflict [OF h, of sample_env "VGeoAxes 0" "VImage 0" "VInt 1000" None]
  show ?thesis using h r t by simp
qed


section \<open>The palette of the request\<close>

lemma map_of_dict_merge_other:
  "k \<notin> set (dict_keys b) \<Longrightarrow> map_of (dict_merge a b) k = map_of a k"
proof (induction b arbitrary: a)
  case Nil
  then show ?case by (simp add: dict_merge_def)
next
  case (Cons p b)
  obtain k' v' where p: "p = (k', v')" by (cases p)
  from Cons.prems p have ne: "k \<noteq> k'" and rest: "k \<notin> set (dict_keys b)"
    by (auto simp add: dict_keys_def)
  have "map_of (dict_merge a (p # b)) k = map_of (dict_merge (dict_set k' v' a) b) k"
    by (simp add: dict_merge_def p)
  also have "\<dots> = map_of (dict_set k' v' a) k"
    using Cons.IH [OF rest] .
  also have "\<dots> = map_of a k"
    using ne by (simp add: dict_set_def update_conv')
  finally show ?case .
qed

lemma dict_get_set_same: "dict_get (dict_set k v d) k = Inr v"
  by (simp add: dict_get_def dict_set_def update_conv')

lemma dict_get_merge_other:
  "k \<notin> set (dict_keys b) \<Longrightarrow> dict_get (dict_merge a b) k = dict_get a k"
  by (simp add: dict_get_def map_of_dict_merge_other)

lemma fetch_and_draw_requests:
  "GetThumbUrl img_obj (deref s args)
     \<in> set (trace (snd (fetch_and_draw env ax img_obj view_extent args s)))"
  by (auto simp add: fetch_and_draw_def bindS_run run_simps split: sum.splits prod.splits)

lemma build_request_palette:
  assumes c: "c \<noteq> []"
    and vp: "vp < next_addr s" "dict_truthy (deref s vp)" "''palette'' \<notin> set (dict_keys (deref s vp))"
    and fresh: "\<forall>a\<ge>next_addr s. map_of (heap s) a = None"
    and bp: "build_palette env c 256 = Inr pal"
  shows "\<exists>args. fst (build_request env dims region map_region (Some c) (Some vp) s) = Inr args
          \<and> dict_get (deref (snd (build_request env dims region map_region (Some c) (Some vp) s)) args)
               ''palette'' = Inr (VStr (join '','' pal))"
proof -
  from vp(1) have ne: "vp \<noteq> next_addr s" "vp \<noteq> Suc (next_addr s)" by simp_all
  from fresh have fr: "map_of (heap s) (next_addr s) = None" "map_of (heap s) (Suc (next_addr s)) = None"
    by simp_all
  show ?thesis
    using c ne vp(2,3) fr bp
    by (simp add: build_request_def merge_vis_params_def bindS_run run_simps alloc_simps
        store_item_simps deref_def dict_get_merge_other dict_get_set_same)
qed

lemma add_layer_injects_palette:
  assumes ty: "type_of img_obj = TImage" "type_of dims \<in> {TList, TTuple, TInt}"
      "type_of ax \<in> {TGeoAxes, TGeoAxesSubplot}"
    and rr: "fst (resolve_region env img_obj region s) = Inr x"
    and c: "c \<noteq> []"
    and vp: "vp < next_addr s" "dict_truthy (deref s vp)" "''palette'' \<notin> set (dict_keys (deref s vp))"
    and fresh: "\<forall>a\<ge>next_addr s. map_of (heap s) a = None"
    and bp: "build_palette env c 256 = Inr pal"
  shows "\<exists>request. GetThumbUrl img_obj request
            \<in> set (trace (snd (add_layer env ax img_obj dims region (Some c) (Some vp) s)))
          \<and> dict_get request ''palette'' = Inr (VStr (join '','' pal))"
proof -
  obtain mr ve where x: "x = (mr, ve)" by (cases x)
  let ?s1 = "s\<lparr>trace := trace s @ [geometry_query img_obj region]\<rparr>"
  have rs: "resolve_region env img_obj region s = (Inr (mr, ve), ?s1)"
    using rr resolve_region_state [of env img_obj region s] x
    by (cases "resolve_region env img_obj region s") simp
  have pre: "vp < next_addr ?s1" "dict_truthy (deref ?s1 vp)"
      "''palette'' \<notin> set (dict_keys (deref ?s1 vp))" "\<forall>a\<ge>next_addr ?s1. map_of (heap ?s1) a = None"
    using vp fresh by simp_all
  let ?b = "build_request env dims region mr (Some c) (Some vp) ?s1"
  from build_request_palette [OF c pre bp, of dims region mr] obtain args where
    args: "fst ?b = Inr args"
      "dict_get (deref (snd ?b) args) ''palette'' = Inr (VStr (join '','' pal))"
    by blast
  have run: "add_layer env ax img_obj dims region (Some c) (Some vp) s =
      fetch_and_draw env ax img_obj ve args (snd ?b)"
    using ty args(1) by (simp add: add_layer_def bindS_run rs run_simps)
  show ?thesis
    unfolding run using fetch_and_draw_requests [of img_obj "snd ?b" args env ax ve] args(2)
    by blast
qed


text \<open>
  Claim C2 says that whenever \<open>cmap\<close> is given and \<open>vis_params\<close> has no \<^verbatim>\<open>palette\<close>
  key, the request holds a \<^verbatim>\<open>palette\<close> entry built from \<open>cmap\<close>. The code does so only
  inside \<^verbatim>\<open>if vis_params:\<close> (lemma \<open>add_layer_injects_palette\<close>). With \<open>vis_params\<close>
  omitted (\<^verbatim>\<open>None\<close>, the default) or empty, the \<open>cmap\<close> is dropped without notice: the
  request has the entries \<^verbatim>\<open>format\<close> and \<^verbatim>\<open>dimensions\<close> and no palette. The theorem
  evaluates \<open>add_layer\<close> at these two inputs.
\<close>

theorem add_layer_cmap_without_vis_params:
  "add_layer sample_env (VGeoAxes 0) (VImage 0) (VInt 1000) None (Some ''viridis'') None sample_state
     = (Inr (), sample_state
         \<lparr>heap := heap sample_state @ [(4, [(''format'', VStr ''png''), (''dimensions'', VInt 1000)])],
          next_addr := 5,
          trace := [BoundsGetInfo (VImage 0),
                    GetThumbUrl (VImage 0) [(''format'', VStr ''png''), (''dimensions'', VInt 1000)],
                    RequestsGet ''https://thumb'',
                    Imshow (VGeoAxes 0) [[[7, 7, 7, 255]]] [0, 10, 0, 5]]\<rparr>)
   \<and> add_layer sample_env (VGeoAxes 0) (VImage 0) (VInt 1000) None (Some ''viridis'') (Some 1) sample_state
     = (Inr (), sample_state
         \<lparr>heap := heap sample_state @ [(4, [(''format'', VStr ''png''), (''dimensions'', VInt 1000)])],
          next_addr := 5,
          trace := [BoundsGetInfo (VImage 0),
                    GetThumbUrl (VImage 0) [(''format'', VStr ''png''), (''dimensions'', VInt 1000)],
                    RequestsGet ''https://thumb'',
                    Imshow (VGeoAxes 0) [[[7, 7, 7, 255]]] [0, 10, 0, 5]]\<rparr>)
   \<and> deref sample_state 1 = []"
  by (simp add: add_layer_def build_request_def fetch_and_draw_def resolve_region_def
      merge_vis_params_def expand_gray_alpha_def
      sample_env_def sample_state_def bindS_run run_simps index_simps
      alloc_def store_item_def deref_def dict_set_def dict_truthy_def call_def numeral_3_eq_3)


section \<open>The dictionaries of the caller\<close>

lemma add_layer_keeps_store:
  assumes "a < next_addr s"
  shows "map_of (heap (snd (add_layer env ax img_obj dims region cmap vis_params s))) a
           = map_of (heap s) a"
proof -
  have "kept (next_addr s) (map_of (heap s)) s" by (simp add: kept_def)
  from tripleD [OF keeps_add_layer this]
  have "kept (next_addr s) (map_of (heap s))
          (snd (add_layer env ax img_obj dims region cmap vis_params s))" .
  with assms show ?thesis by (simp add: kept_def)
qed

subsection \<open>The colorbar composer does not write to the store\<close>

lemma inv_bind:
  assumes "triple P m (\<lambda>r. P)" and "\<And>v. triple P (f v) (\<lambda>r. P)"
  shows "triple P (bindS m f) (\<lambda>r. P)"
  by (rule triple_bind [where R = "\<lambda>v. P"])
     (use assms in \<open>auto simp add: triple_def split: sum.splits\<close>)

lemma triple_pyval_str:
  assumes "\<And>l. triple P (f l) Q" "triple P g Q"
  shows "triple P (case v of VStr l \<Rightarrow> f l | _ \<Rightarrow> g) Q"
  using assms by (cases v) simp_all

lemma same_heap_leaves:
  "triple (\<lambda>s. heap s = hp) (returnS v) (\<lambda>r s. heap s = hp)"
  "triple (\<lambda>s. heap s = hp) (raiseS e) (\<lambda>r s. heap s = hp)"
  "triple (\<lambda>s. heap s = hp) (liftE x) (\<lambda>r s. heap s = hp)"
  "triple (\<lambda>s. heap s = hp) (call ev y) (\<lambda>r s. heap s = hp)"
  "triple (\<lambda>s. heap s = hp) (read_dict a) (\<lambda>r s. heap s = hp)"
  by (simp_all add: triple_def run_simps)

lemmas same_heap_rules =
  inv_bind keeps_if keeps_prod keeps_option keeps_list triple_pyval_str same_heap_leaves

lemma same_heap_placement:
  "triple (\<lambda>s. heap s = hp) (placement env ax loc kwargs) (\<lambda>r s. heap s = hp)"
  unfolding placement_def by (intro same_heap_rules)

lemma same_heap_resolve:
  "triple (\<lambda>s. heap s = hp) (resolve_vmin vis) (\<lambda>r s. heap s = hp)"
  "triple (\<lambda>s. heap s = hp) (resolve_vmax vis) (\<lambda>r s. heap s = hp)"
  "triple (\<lambda>s. heap s = hp) (resolve_alpha vis kwargs) (\<lambda>r s. heap s = hp)"
  unfolding resolve_vmin_def resolve_vmax_def resolve_alpha_def by (intro same_heap_rules)+

lemma same_heap_color_source:
  "triple (\<lambda>s. heap s = hp) (color_source env vis cmap discrete vmin vmax) (\<lambda>r s. heap s = hp)"
  unfolding color_source_def by (intro same_heap_rules)

lemma same_heap_colorbar_call:
  "triple (\<lambda>s. heap s = hp) (colorbar_call env cax nrm alpha cmap kwargs) (\<lambda>r s. heap s = hp)"
  unfolding colorbar_call_def by (intro same_heap_rules)

lemma same_heap_add_colorbar:
  "triple (\<lambda>s. heap s = hp) (add_colorbar env ax vis_params loc cmap discrete label kwargs)
     (\<lambda>r s. heap s = hp)"
  unfolding add_colorbar_def
  by (intro same_heap_rules same_heap_placement same_heap_resolve same_heap_color_source
      same_heap_colorbar_call)

lemma add_colorbar_keeps_store:
  "heap (snd (add_colorbar env ax vis_params loc cmap discrete label kwargs s)) = heap s"
  using tripleD [OF same_heap_add_colorbar [of "heap s"], of s] by simp


text \<open>
  Claim C10. Neither \<open>add_layer\<close> nor \<open>add_colorbar\<close> changes the caller's
  \<open>vis_params\<close>, whether the call returns or raises. \<open>add_layer\<close> writes only to the
  dictionaries it creates itself, so every dictionary that exists before the call (an
  address below \<open>next_addr\<close>), and the caller's \<open>vis_params\<close> among them, has the same
  entries afterwards; \<open>add_colorbar\<close> leaves the whole store as it is.
\<close>

theorem vis_params_not_mutated:
  "(a < next_addr s \<longrightarrow>
      map_of (heap (snd (add_layer env ax img_obj dims region cmap vis_params s))) a = map_of (heap s) a)
   \<and> (vp < next_addr s \<longrightarrow>
      deref (snd (add_layer env ax img_obj dims region cmap (Some vp) s)) vp = deref s vp)
   \<and> heap (snd (add_colorbar env ax' vp loc cmap' discrete label kwargs s)) = heap s
   \<and> deref (snd (add_colorbar env ax' vp loc cmap' discrete label kwargs s)) vp = deref s vp"
  using add_layer_keeps_store [where a = a and s = s and env = env and ax = ax and img_obj = img_obj
      and dims = dims and region = region and cmap = cmap and vis_params = vis_params]
    add_layer_keeps_store [where a = vp and s = s and env = env and ax = ax and img_obj = img_obj
      and dims = dims and region = region and cmap = cmap and vis_params = "Some vp"]
    add_colorbar_keeps_store [where env = env and ax = ax' and vis_params = vp and loc = loc
      and cmap = cmap' and discrete = discrete and label = label and kwargs = kwargs and s = s]
  by (simp add: deref_def)

theorem vis_params_not_mutated_witness:
  "0 < next_addr sample_state
   \<and> deref (snd (add_layer sample_env (VGeoAxes 0) (VImage 0) (VInt 1000) None None (Some 0) sample_state)) 0
       = [(''min'', VInt 0), (''max'', VInt 3000)]
   \<and> deref (snd (add_colorbar sample_env (VGeoAxes 0) 0 (VStr ''right'') (Some ''gray'') False VNone []
        sample_state)) 0 = [(''min'', VInt 0), (''max'', VInt 3000)]"
proof -
  have n: "0 < next_addr sample_state" by (simp add: sample_state_def)
  have d: "deref sample_state 0 = [(''min'', VInt 0), (''max'', VInt 3000)]"
    by (simp add: sample_state_def deref_def)
  from vis_params_not_mutated [where s = sample_state and vp = 0 and env = sample_env
      and ax = "VGeoAxes 0" and img_obj = "VImage 0" and dims = "VInt 1000" and region = None
      and cmap = None and ax' = "VGeoAxes 0" and loc = "VStr ''right''" and cmap' = "Some ''gray''"
      and discrete = False and label = VNone and kwargs = "[]"] n d
  show ?thesis by simp
qed

section \<open>Properties of the colorbar composer\<close>

lemmas colorbar_defs =
  add_colorbar_def placement_def posOpts_def resolve_vmin_def resolve_vmax_def resolve_alpha_def
  color_source_def colorbar_call_def get_cmap_def

text \<open>
  Claim C4 says that with absent keys the defaults \<open>vmin = 0\<close>, \<open>vmax = 1\<close>,
  \<open>alpha = 1\<close> are applied and the colorbar is still produced, and that \<open>alpha\<close> can
  come from the caller's keyword argument. The code applies the defaults only inside
  \<^verbatim>\<open>if vis_params:\<close>. For an empty \<open>vis_params\<close>, where every key is absent,
  \<^verbatim>\<open>norm\<close> and \<^verbatim>\<open>alpha\<close> are never bound and line 355 raises \<^verbatim>\<open>UnboundLocalError\<close>,
  after the axes of the colorbar have been added to the figure. And a caller's
  \<^verbatim>\<open>alpha\<close> keyword stays in \<^verbatim>\<open>kwargs\<close>, so line 355 passes \<^verbatim>\<open>alpha\<close> twice and
  raises \<^verbatim>\<open>TypeError\<close>. The theorem evaluates \<open>add_colorbar\<close> at these two inputs.
\<close>

theorem add_colorbar_unbound_locals:
  "add_colorbar sample_env (VGeoAxes 0) 1 (VStr ''right'') (Some ''gray'') False VNone [] sample_state
     = (Inl (UnboundLocalError ''norm''),
        sample_state\<lparr>trace := [AddAxes (VGeoAxes 0) [22/25, 1/4, 1/50, 1/2],
                                SubplotsAdjust ''right'' (17/20)]\<rparr>)
   \<and> deref sample_state 1 = []
   \<and> add_colorbar sample_env (VGeoAxes 0) 0 (VStr ''top'') (Some ''gray'') False VNone
        [(''alpha'', VFloat (1/2))] sample_state
     = (Inl (TypeError ''got multiple values for keyword argument alpha''),
        sample_state\<lparr>trace := [AddAxes (VGeoAxes 0) [1/4, 22/25, 1/2, 1/50]]\<rparr>)"
  by (simp add: colorbar_defs sample_env_def sample_state_def bindS_run run_simps bindE_simps
      deref_def dict_keys_def dict_get_def dict_truthy_def)

lemma add_colorbar_defaults_example:
  "add_colorbar sample_env (VGeoAxes 0) 2 (VStr ''top'') (Some ''gray'') False VNone [] sample_state
     = (Inr (),
        sample_state\<lparr>trace := [AddAxes (VGeoAxes 0) [1/4, 22/25, 1/2, 1/50],
           ColorbarBase (VObject ''Axes'' 1) (Normalize (VInt 0) (VInt 1)) (VInt 1)
             (CmapObject (NamedColormap ''gray'')) [],
           SetLabel (VStr ''B1'')]\<rparr>)"
  by (simp add: colorbar_defs sample_env_def sample_state_def bindS_run run_simps bindE_simps
      deref_def dict_keys_def dict_get_def dict_truthy_def call_def)

lemma resolve_defaults:
  "''min'' \<notin> set (dict_keys vis) \<Longrightarrow> resolve_vmin vis s = (Inr (VInt 0), s)"
  "''max'' \<notin> set (dict_keys vis) \<Longrightarrow> resolve_vmax vis s = (Inr (VInt 1), s)"
  "''opacity'' \<notin> set (dict_keys vis) \<Longrightarrow> ''alpha'' \<notin> set (dict_keys kwargs)
     \<Longrightarrow> resolve_alpha vis kwargs s = (Inr (VInt 1), s)"
  by (simp_all add: resolve_vmin_def resolve_vmax_def resolve_alpha_def returnS_def)

lemma resolve_scalar_checks:
  "dict_get vis ''min'' = Inr v \<Longrightarrow> type_of v \<notin> {TInt, TFloat}
     \<Longrightarrow> fst (resolve_vmin vis s) = Inl (ValueError ''provided min value not of scalar type'')"
  "dict_get vis ''max'' = Inr v \<Longrightarrow> type_of v \<notin> {TInt, TFloat}
     \<Longrightarrow> fst (resolve_vmax vis s) = Inl (ValueError ''provided max value not of scalar type'')"
  "dict_get vis ''opacity'' = Inr v \<Longrightarrow> type_of v \<notin> {TInt, TFloat}
     \<Longrightarrow> fst (resolve_alpha vis kwargs s) = Inl (ValueError ''provided opacity value of not type scalar'')"
  by (auto simp add: resolve_vmin_def resolve_vmax_def resolve_alpha_def bindS_run run_simps
      dict_get_def dict_keys_def split: option.splits dest: map_of_SomeD weak_map_of_SomeI
      intro: rev_image_eqI)










end
